theory Spec2Isabelle
  imports
    Main
    "HOL-Library.Word"
    "HOL-Library.Multiset"
    "HOL-Library.Sublist"
    "HOL-Library.List_Lexorder"
    "HOL-Library.Product_Lexorder"
    "HOL-Library.Sorting_Algorithms"
begin

section \<open>The comparison matrix of \<^verbatim>\<open>src/components/ComparisonView.tsx\<close>\<close>

subsection \<open>Strings\<close>

text \<open>
  A JavaScript string is a sequence of UTF-16 code units. Every string operation the
  component uses (\<^verbatim>\<open>split\<close>, \<^verbatim>\<open>trim\<close>, \<^verbatim>\<open>startsWith\<close>, \<^verbatim>\<open>replace\<close> with a
  global pattern, \<^verbatim>\<open>slice\<close>) works on code units, so a string is a list of 16-bit
  words. \<open>js\<close> turns an Isabelle literal into such a list.
\<close>

type_synonym jsstring = "16 word list"

definition js :: "string \<Rightarrow> jsstring" where
  "js s = map of_char s"

text \<open>\<^verbatim>\<open>s.startsWith(p)\<close>, \<^verbatim>\<open>s.endsWith(p)\<close> and \<^verbatim>\<open>s.includes(p)\<close>.\<close>

definition startsWith :: "jsstring \<Rightarrow> jsstring \<Rightarrow> bool" where
  "startsWith s p = (take (length p) s = p)"

definition endsWith :: "jsstring \<Rightarrow> jsstring \<Rightarrow> bool" where
  "endsWith s p = (length p \<le> length s \<and> drop (length s - length p) s = p)"

fun includesStr :: "jsstring \<Rightarrow> jsstring \<Rightarrow> bool" where
  "includesStr [] p = (p = [])"
| "includesStr (c # s) p = (startsWith (c # s) p \<or> includesStr s p)"

text \<open>
  \<^verbatim>\<open>s.trim()\<close> removes, at both ends, the code units that ECMAScript calls white space
  or line terminators.
\<close>

definition isLineTerminator :: "16 word \<Rightarrow> bool" where
  "isLineTerminator c = (c = 0x000A \<or> c = 0x000D \<or> c = 0x2028 \<or> c = 0x2029)"

definition isWhiteSpace :: "16 word \<Rightarrow> bool" where
  "isWhiteSpace c =
     (c = 0x0009 \<or> c = 0x000B \<or> c = 0x000C \<or> c = 0x0020 \<or> c = 0x00A0 \<or> c = 0x1680 \<or>
      (0x2000 \<le> c \<and> c \<le> 0x200A) \<or> c = 0x202F \<or> c = 0x205F \<or> c = 0x3000 \<or> c = 0xFEFF \<or>
      isLineTerminator c)"

definition trim :: "jsstring \<Rightarrow> jsstring" where
  "trim s = rev (dropWhile isWhiteSpace (rev (dropWhile isWhiteSpace s)))"

text \<open>\<^verbatim>\<open>s.split(c)\<close> for a separator of one code unit, and \<^verbatim>\<open>parts.join(sep)\<close>.\<close>

fun splitOn :: "16 word \<Rightarrow> jsstring \<Rightarrow> jsstring list" where
  "splitOn sep [] = [[]]"
| "splitOn sep (c # s) =
     (if c = sep then [] # splitOn sep s
      else (case splitOn sep s of [] \<Rightarrow> [[c]] | part # parts \<Rightarrow> (c # part) # parts))"

fun joinWith :: "jsstring \<Rightarrow> jsstring list \<Rightarrow> jsstring" where
  "joinWith sep [] = []"
| "joinWith sep [part] = part"
| "joinWith sep (part # next_part # parts) = part @ sep @ joinWith sep (next_part # parts)"

text \<open>
  \<^verbatim>\<open>s.slice(start, end)\<close>: a negative index counts from the end, both indices are
  clamped to the string, and an empty range gives the empty string.
\<close>

definition slice :: "jsstring \<Rightarrow> int \<Rightarrow> int \<Rightarrow> jsstring" where
  "slice s start fin =
     (let len = int (length s);
          from = (if start < 0 then max (len + start) 0 else min start len);
          to = (if fin < 0 then max (len + fin) 0 else min fin len)
      in take (nat (to - from)) (drop (nat from) s))"

text \<open>
  The three global replacements of the export: \<^verbatim>\<open>replace(/"/g, '""')\<close>,
  \<^verbatim>\<open>replace(/\*\*/g, '')\<close> (matches are found from left to right and do not overlap)
  and \<^verbatim>\<open>replace(/-/g, bullet)\<close>, where the bullet is the code unit U+2022.
\<close>

definition doubleQuotes :: "jsstring \<Rightarrow> jsstring" where
  "doubleQuotes s = concat (map (\<lambda>c. if c = 0x22 then [0x22, 0x22] else [c]) s)"

fun removeStars :: "jsstring \<Rightarrow> jsstring" where
  "removeStars (a # b # s) = (if a = 0x2A \<and> b = 0x2A then removeStars s else a # removeStars (b # s))"
| "removeStars s = s"

definition hyphensToBullets :: "jsstring \<Rightarrow> jsstring" where
  "hyphensToBullets s = map (\<lambda>c. if c = 0x2D then 0x2022 else c) s"

text \<open>
  Two built-ins are not code of the repository and depend on the host:
  \<^verbatim>\<open>toLowerCase\<close> (the Unicode case mapping) and \<^verbatim>\<open>localeCompare\<close> (the collation
  of the host's locale). They are parameters. ECMAScript requires \<^verbatim>\<open>localeCompare\<close>
  to be a consistent comparison function, which is what the type \<open>comparator\<close> holds:
  \<open>Less\<close>, \<open>Equiv\<close> and \<open>Greater\<close> stand for a negative result, zero and a positive one.
\<close>

record host =
  toLowerCase :: "jsstring \<Rightarrow> jsstring"
  localeCompare :: "jsstring comparator"

text \<open>
  Two instances of the host, for concrete runs only; neither is the comparison of a real
  host on all strings. \<open>asciiHost\<close> has lower case on the letters A to Z and the
  comparison of code units from left to right. \<open>collatingHost\<close> compares as a
  locale-sensitive collation does on lowercase Latin letters: first the strings with
  every accented letter replaced by its base letter, then, when these are equal, the
  strings themselves; so \<open>e\<close> with an acute accent (U+00E9) comes after \<open>e\<close> and
  before \<open>f\<close>.
\<close>

definition asciiLower :: "jsstring \<Rightarrow> jsstring" where
  "asciiLower s = map (\<lambda>c. if 0x41 \<le> c \<and> c \<le> 0x5A then c + 0x20 else c) s"

definition asciiHost :: host where
  "asciiHost = \<lparr>toLowerCase = asciiLower, localeCompare = default\<rparr>"

definition baseLetter :: "16 word \<Rightarrow> 16 word" where
  "baseLetter c =
     (if 0xE0 \<le> c \<and> c \<le> 0xE5 then 0x61
      else if c = 0xE7 then 0x63
      else if 0xE8 \<le> c \<and> c \<le> 0xEB then 0x65
      else if 0xEC \<le> c \<and> c \<le> 0xEF then 0x69
      else if c = 0xF1 then 0x6E
      else if 0xF2 \<le> c \<and> c \<le> 0xF6 then 0x6F
      else if 0xF9 \<le> c \<and> c \<le> 0xFC then 0x75
      else if c = 0xFD \<or> c = 0xFF then 0x79
      else c)"

definition collationKey :: "jsstring \<Rightarrow> jsstring \<times> jsstring" where
  "collationKey s = (map baseLetter s, s)"

definition collatingHost :: host where
  "collatingHost = \<lparr>toLowerCase = asciiLower, localeCompare = key collationKey default\<rparr>"

subsection \<open>Data model (\<^verbatim>\<open>src/types.ts\<close>)\<close>

text \<open>
  \<^verbatim>\<open>PaperAnalysis\<close> and \<^verbatim>\<open>ComparisonPoint\<close>. The fields \<^verbatim>\<open>id\<close> and \<^verbatim>\<open>keywords\<close> are called
  \<open>id_paper\<close> and \<open>keywords_paper\<close> here. \<^verbatim>\<open>paperInsights\<close> is a \<^verbatim>\<open>Record<string, string>\<close>: the component
  reads it by key, asks whether a key is among \<^verbatim>\<open>Object.keys\<close>, and copies it with one
  key set; it never looks at the order of the keys, so the object is a map from document
  id to insight text. Document ids are made by \<^verbatim>\<open>crypto.randomUUID()\<close> and so are never
  names of inherited properties of a JavaScript object.
\<close>

record PaperAnalysis =
  id_paper :: jsstring
  fileName :: jsstring
  title :: jsstring
  summary :: jsstring
  majorFindings :: "jsstring list"
  methodology :: jsstring
  researchGaps :: "jsstring list"
  keywords_paper :: "jsstring list"
  uploadDate :: int

text \<open>
  A document with the three fields that the component reads; the other fields are empty.
  It is used to write concrete document lists.
\<close>

definition mkPaper :: "jsstring \<Rightarrow> jsstring \<Rightarrow> jsstring \<Rightarrow> PaperAnalysis" where
  "mkPaper pid file_name paper_title =
     \<lparr>id_paper = pid, fileName = file_name, title = paper_title, summary = [], majorFindings = [],
      methodology = [], researchGaps = [], keywords_paper = [], uploadDate = 0\<rparr>"

record ComparisonPoint =
  criteria :: jsstring
  paperInsights :: "jsstring \<rightharpoonup> jsstring"

text \<open>
  The state the component works on: the matrix \<^verbatim>\<open>comparisonResult\<close> (\<open>None\<close> is
  \<^verbatim>\<open>null\<close>) with its setter \<^verbatim>\<open>setComparisonResult\<close>, and the selection
  \<^verbatim>\<open>selectedIds\<close>. The document list \<^verbatim>\<open>papers\<close> is a property the component only reads.
  The states \<^verbatim>\<open>isComparing\<close> and \<^verbatim>\<open>error\<close> belong to the request for a comparison
  and are read by none of the functions below.
\<close>

record view_state =
  comparisonResult :: "ComparisonPoint list option"
  selectedIds :: "jsstring set"

text \<open>
  The expression \<^verbatim>\<open>point.paperInsights?.[paper.id] || ""\<close>: the stored text, or the empty
  string when the key is missing (an empty stored text is falsy and gives the empty string
  as well).
\<close>

definition insightOf :: "ComparisonPoint \<Rightarrow> jsstring \<Rightarrow> jsstring" where
  "insightOf point pid = (case paperInsights point pid of None \<Rightarrow> [] | Some t \<Rightarrow> t)"

subsection \<open>\<^verbatim>\<open>updateCell\<close> (lines 167 to 183)\<close>

text \<open>
  The function given to \<^verbatim>\<open>comparisonResult.map\<close>: a dimension whose name is
  \<^verbatim>\<open>criteriaName\<close> is copied with the key \<^verbatim>\<open>paperId\<close> of its insights set to
  \<^verbatim>\<open>newValue\<close>; any other dimension is returned as it is.
\<close>

definition updatePoint :: "jsstring \<Rightarrow> jsstring \<Rightarrow> jsstring \<Rightarrow> ComparisonPoint \<Rightarrow> ComparisonPoint" where
  "updatePoint paperId criteriaName newValue point =
     (if criteria point = criteriaName
      then point\<lparr>paperInsights := (paperInsights point)(paperId \<mapsto> newValue)\<rparr>
      else point)"

definition updateCell :: "jsstring \<Rightarrow> jsstring \<Rightarrow> jsstring \<Rightarrow> view_state \<Rightarrow> view_state" where
  "updateCell paperId criteriaName newValue s =
     (case comparisonResult s of
        None \<Rightarrow> s
      | Some cr \<Rightarrow> s\<lparr>comparisonResult := Some (map (updatePoint paperId criteriaName newValue) cr)\<rparr>)"

subsection \<open>\<^verbatim>\<open>updateCell\<close> on the store\<close>

text \<open>
  Whether \<^verbatim>\<open>updateCell\<close> writes into the objects of the previous matrix is a question
  about the store, so the same lines are modelled once more with explicit objects. An
  address is an index into the heap; the array, each point and each insights object are
  objects of their own. \<^verbatim>\<open>Array.prototype.map\<close> allocates the new array, the object
  literal with the spread allocates a new point and a new insights object, and a point
  that does not match is returned by reference. \<open>None\<close> is the result on a heap that
  does not hold objects of the declared types at the addresses read.
\<close>

datatype obj =
    ArrayObj "nat list"
  | PointObj jsstring nat
  | InsightsObj "jsstring \<rightharpoonup> jsstring"

type_synonym heap = "obj list"

definition deref :: "heap \<Rightarrow> nat \<Rightarrow> obj option" where
  "deref h a = (if a < length h then Some (h ! a) else None)"

definition alloc :: "heap \<Rightarrow> obj \<Rightarrow> heap \<times> nat" where
  "alloc h ob = (h @ [ob], length h)"

definition updatePoint_store ::
  "jsstring \<Rightarrow> jsstring \<Rightarrow> jsstring \<Rightarrow> heap \<Rightarrow> nat \<Rightarrow> (heap \<times> nat) option" where
  "updatePoint_store paperId criteriaName newValue h point =
     (case deref h point of
        Some (PointObj crit ins) \<Rightarrow>
          if crit = criteriaName then
            (case deref h ins of
               Some (InsightsObj m) \<Rightarrow>
                 (let (h1, ins') = alloc h (InsightsObj (m(paperId \<mapsto> newValue)));
                      (h2, point') = alloc h1 (PointObj crit ins')
                  in Some (h2, point'))
             | _ \<Rightarrow> None)
          else Some (h, point)
      | _ \<Rightarrow> None)"

fun map_store ::
  "jsstring \<Rightarrow> jsstring \<Rightarrow> jsstring \<Rightarrow> heap \<Rightarrow> nat list \<Rightarrow> (heap \<times> nat list) option" where
  "map_store paperId criteriaName newValue h [] = Some (h, [])"
| "map_store paperId criteriaName newValue h (point # points) =
     (case updatePoint_store paperId criteriaName newValue h point of
        None \<Rightarrow> None
      | Some (h1, point') \<Rightarrow>
          (case map_store paperId criteriaName newValue h1 points of
             None \<Rightarrow> None
           | Some (h2, points') \<Rightarrow> Some (h2, point' # points')))"

definition updateCell_store ::
  "jsstring \<Rightarrow> jsstring \<Rightarrow> jsstring \<Rightarrow> heap \<Rightarrow> nat option \<Rightarrow> (heap \<times> nat option) option" where
  "updateCell_store paperId criteriaName newValue h comparisonResultRef =
     (case comparisonResultRef of
        None \<Rightarrow> Some (h, None)
      | Some r \<Rightarrow>
          (case deref h r of
             Some (ArrayObj points) \<Rightarrow>
               (case map_store paperId criteriaName newValue h points of
                  None \<Rightarrow> None
                | Some (h1, points') \<Rightarrow>
                    (let (h2, r') = alloc h1 (ArrayObj points') in Some (h2, Some r')))
           | _ \<Rightarrow> None))"

text \<open>The matrix value that an address of the heap stands for.\<close>

definition read_point :: "heap \<Rightarrow> nat \<Rightarrow> ComparisonPoint option" where
  "read_point h a =
     (case deref h a of
        Some (PointObj crit ins) \<Rightarrow>
          (case deref h ins of
             Some (InsightsObj m) \<Rightarrow> Some \<lparr>criteria = crit, paperInsights = m\<rparr>
           | _ \<Rightarrow> None)
      | _ \<Rightarrow> None)"

definition read_matrix :: "heap \<Rightarrow> nat \<Rightarrow> ComparisonPoint list option" where
  "read_matrix h r =
     (case deref h r of
        Some (ArrayObj points) \<Rightarrow> those (map (read_point h) points)
      | _ \<Rightarrow> None)"

subsection \<open>Transposition and sorting (lines 229 to 251)\<close>

text \<open>
  \<^verbatim>\<open>activeResultIds\<close> is the list \<^verbatim>\<open>Object.keys(comparisonResult[0].paperInsights || {})\<close>,
  or the empty list when the matrix is \<^verbatim>\<open>null\<close> or has no dimension. It is only asked
  whether it \<^verbatim>\<open>includes\<close> an id, so it is the set of those keys.
\<close>

definition activeResultIds :: "view_state \<Rightarrow> jsstring set" where
  "activeResultIds s =
     (case comparisonResult s of
        None \<Rightarrow> {}
      | Some cr \<Rightarrow> (case cr of [] \<Rightarrow> {} | first # _ \<Rightarrow> dom (paperInsights first)))"

text \<open>The value of \<^verbatim>\<open>tablePapers\<close> after step 2, before it is sorted.\<close>

definition tablePapers_filtered :: "PaperAnalysis list \<Rightarrow> view_state \<Rightarrow> PaperAnalysis list" where
  "tablePapers_filtered papers s = filter (\<lambda>p. id_paper p \<in> activeResultIds s) papers"

definition isModelCriteria :: "host \<Rightarrow> ComparisonPoint \<Rightarrow> bool" where
  "isModelCriteria env c =
     (includesStr (toLowerCase env (criteria c)) (js ''model'') \<or>
      includesStr (toLowerCase env (criteria c)) (js ''architecture''))"

definition modelCriteria :: "host \<Rightarrow> ComparisonPoint list \<Rightarrow> ComparisonPoint option" where
  "modelCriteria env cr = List.find (isModelCriteria env) cr"

text \<open>
  The key of a document under the dimension found: \<^verbatim>\<open>modelA\<close> and \<^verbatim>\<open>modelB\<close> of the
  source. \<^verbatim>\<open>Array.prototype.sort\<close> is stable, and with a consistent comparison
  function its result is the one sorted list that keeps equal elements in their order;
  \<open>Sorting_Algorithms.sort\<close> computes that list.
\<close>

definition modelKey :: "host \<Rightarrow> ComparisonPoint \<Rightarrow> PaperAnalysis \<Rightarrow> jsstring" where
  "modelKey env mc p = toLowerCase env (insightOf mc (id_paper p))"

definition tablePapers :: "host \<Rightarrow> PaperAnalysis list \<Rightarrow> view_state \<Rightarrow> PaperAnalysis list" where
  "tablePapers env papers s =
     (case comparisonResult s of
        None \<Rightarrow> tablePapers_filtered papers s
      | Some cr \<Rightarrow>
          (case modelCriteria env cr of
             None \<Rightarrow> tablePapers_filtered papers s
           | Some mc \<Rightarrow>
               Sorting_Algorithms.sort (key (modelKey env mc) (localeCompare env))
                 (tablePapers_filtered papers s)))"

text \<open>
  A matrix with the dimension names of the specification's example of the choice of the
  sort key, for concrete runs.
\<close>

definition exampleMatrix :: "ComparisonPoint list" where
  "exampleMatrix =
     [\<lparr>criteria = js ''Study Design'',
        paperInsights = [js ''d1'' \<mapsto> js ''RCT'', js ''d2'' \<mapsto> js ''Cohort'', js ''d3'' \<mapsto> js ''Survey'']\<rparr>,
      \<lparr>criteria = js ''Model/Architecture/Tools Used'',
        paperInsights = [js ''d1'' \<mapsto> js ''Transformer'', js ''d2'' \<mapsto> js ''CNN'', js ''d3'' \<mapsto> js ''cnn'']\<rparr>,
      \<lparr>criteria = js ''Key Findings'', paperInsights = Map.empty\<rparr>]"

subsection \<open>\<^verbatim>\<open>downloadCSV\<close> (lines 185 to 216)\<close>

definition paperIdsInResult :: "ComparisonPoint list \<Rightarrow> jsstring set" where
  "paperIdsInResult cr = (case cr of [] \<Rightarrow> {} | first # _ \<Rightarrow> dom (paperInsights first))"

definition relevantPapers :: "PaperAnalysis list \<Rightarrow> ComparisonPoint list \<Rightarrow> PaperAnalysis list" where
  "relevantPapers papers cr = filter (\<lambda>p. id_paper p \<in> paperIdsInResult cr) papers"

definition criteriaNames :: "ComparisonPoint list \<Rightarrow> jsstring list" where
  "criteriaNames cr = map criteria cr"

definition headers :: "ComparisonPoint list \<Rightarrow> jsstring list" where
  "headers cr = js ''Paper Title'' # js ''Authors/Year (Ref)'' # criteriaNames cr"

text \<open>The template literal that wraps a field of a data row in double quotes.\<close>

definition quoted :: "jsstring \<Rightarrow> jsstring" where
  "quoted field = [0x22] @ doubleQuotes field @ [0x22]"

definition insightField :: "ComparisonPoint \<Rightarrow> PaperAnalysis \<Rightarrow> jsstring" where
  "insightField c p = quoted (hyphensToBullets (removeStars (insightOf c (id_paper p))))"

definition rowData :: "ComparisonPoint list \<Rightarrow> PaperAnalysis \<Rightarrow> jsstring list" where
  "rowData cr p = quoted (title p) # quoted (fileName p) # map (\<lambda>c. insightField c p) cr"

text \<open>
  \<open>rows\<close> and \<open>csvText\<close> take the list of documents that the rows are made from; in
  \<open>downloadCSV\<close> that list is \<open>relevantPapers\<close>. \<open>csvText\<close> is the text after the prefix
  of the data URI.
\<close>

definition rows :: "ComparisonPoint list \<Rightarrow> PaperAnalysis list \<Rightarrow> jsstring list" where
  "rows cr docs = map (\<lambda>p. joinWith (js '','') (rowData cr p)) docs"

definition csvText :: "ComparisonPoint list \<Rightarrow> PaperAnalysis list \<Rightarrow> jsstring" where
  "csvText cr docs = joinWith [0x0A] (joinWith (js '','') (headers cr) # rows cr docs)"

definition csvContent :: "ComparisonPoint list \<Rightarrow> PaperAnalysis list \<Rightarrow> jsstring" where
  "csvContent cr docs = js ''data:text/csv;charset=utf-8,'' @ csvText cr docs"

text \<open>
  \<^verbatim>\<open>encodeURI(csvContent)\<close> (line 209) throws \<^verbatim>\<open>URIError\<close> when the text holds a
  surrogate code unit that is not part of a pair: a lead surrogate (U+D800 to U+DBFF)
  not followed by a trail surrogate (U+DC00 to U+DFFF), or a trail surrogate not
  preceded by a lead surrogate. The throw comes before the link is created.
\<close>

datatype error = URIError

definition isLeadSurrogate :: "16 word \<Rightarrow> bool" where
  "isLeadSurrogate c = (0xD800 \<le> c \<and> c \<le> 0xDBFF)"

definition isTrailSurrogate :: "16 word \<Rightarrow> bool" where
  "isTrailSurrogate c = (0xDC00 \<le> c \<and> c \<le> 0xDFFF)"

fun hasUnpairedSurrogate :: "jsstring \<Rightarrow> bool" where
  "hasUnpairedSurrogate [] = False"
| "hasUnpairedSurrogate [c] = (isLeadSurrogate c \<or> isTrailSurrogate c)"
| "hasUnpairedSurrogate (c # d # s) =
     (if isLeadSurrogate c then (if isTrailSurrogate d then hasUnpairedSurrogate s else True)
      else if isTrailSurrogate c then True
      else hasUnpairedSurrogate (d # s))"

text \<open>
  \<open>downloadCSV\<close> gives the state after the call and what the call produces. \<open>Inr None\<close>
  is the early return of line 186, where nothing is produced; \<open>Inl URIError\<close> is the
  throw of \<^verbatim>\<open>encodeURI\<close>, where nothing is produced either; \<open>Inr (Some content)\<close> is
  the download of \<^verbatim>\<open>csvContent\<close>. The outcome carries the text given to
  \<^verbatim>\<open>encodeURI\<close>; the percent-encoding of the link, and creating and clicking it, are
  the browser's part. The function calls no setter.
\<close>

definition downloadCSV ::
  "PaperAnalysis list \<Rightarrow> view_state \<Rightarrow> view_state \<times> (error + jsstring option)" where
  "downloadCSV papers s =
     (s, case comparisonResult s of
           None \<Rightarrow> Inr None
         | Some cr \<Rightarrow>
             if selectedIds s = {} then Inr None
             else if hasUnpairedSurrogate (csvContent cr (relevantPapers papers cr))
               then Inl URIError
             else Inr (Some (csvContent cr (relevantPapers papers cr))))"

subsection \<open>\<^verbatim>\<open>EditableCell\<close> (lines 14 to 128)\<close>

text \<open>
  A handler of the cell calls setters and callbacks; it is modelled by the list of calls
  it makes, in order. \<open>handleBlur\<close> reads the state \<^verbatim>\<open>value\<close> (here \<open>val\<close>), \<open>handleKeyDown\<close> the
  property \<^verbatim>\<open>initialValue\<close> and the key of the event, and the \<^verbatim>\<open>onChange\<close> of the
  text area the new text.
\<close>

datatype cell_call = SetIsEditing bool | OnSave jsstring | SetValue jsstring

definition handleBlur :: "jsstring \<Rightarrow> cell_call list" where
  "handleBlur val = [SetIsEditing False, OnSave val]"

definition handleKeyDown :: "jsstring \<Rightarrow> jsstring \<Rightarrow> cell_call list" where
  "handleKeyDown initialValue key_name =
     (if key_name = js ''Escape'' then [SetIsEditing False, SetValue initialValue] else [])"

definition onChange :: "jsstring \<Rightarrow> cell_call list" where
  "onChange target_value = [SetValue target_value]"

text \<open>
  What the calls do for the cell of document \<open>paperId\<close> under the dimension named
  \<open>criteriaName\<close>, as \<^verbatim>\<open>ComparisonView\<close> wires it (lines 362 to 367): \<^verbatim>\<open>onSave\<close> is
  \<open>updateCell\<close> for this cell, \<^verbatim>\<open>setIsEditing\<close> is a function with an empty body, and
  \<^verbatim>\<open>setValue\<close> sets the cell's own state.
\<close>

record cell_view =
  store :: view_state
  value_cell :: jsstring

fun runCall :: "jsstring \<Rightarrow> jsstring \<Rightarrow> cell_view \<Rightarrow> cell_call \<Rightarrow> cell_view" where
  "runCall paperId criteriaName v (SetIsEditing b) = v"
| "runCall paperId criteriaName v (OnSave newVal) =
     v\<lparr>store := updateCell paperId criteriaName newVal (store v)\<rparr>"
| "runCall paperId criteriaName v (SetValue x) = v\<lparr>value_cell := x\<rparr>"

definition runCalls :: "jsstring \<Rightarrow> jsstring \<Rightarrow> cell_view \<Rightarrow> cell_call list \<Rightarrow> cell_view" where
  "runCalls paperId criteriaName v calls = foldl (runCall paperId criteriaName) v calls"

text \<open>
  \<open>renderContent\<close> (lines 78 to 116). \<open>matchBold\<close> is one attempt of the pattern
  \<^verbatim>\<open>\*\*.*?\*\*\<close> at the start of a string and gives the length of the match: after the
  opening stars the lazy \<^verbatim>\<open>.*?\<close> stops at the first pair of stars, and fails at a line
  terminator, which \<^verbatim>\<open>.\<close> does not match. \<open>splitBold\<close> is \<^verbatim>\<open>split\<close> with this
  pattern in a capture group: the text before a match, the match, and so on.
\<close>

fun findClose :: "jsstring \<Rightarrow> nat option" where
  "findClose [] = None"
| "findClose (c # s) =
     (if startsWith (c # s) (js ''**'') then Some 0
      else if isLineTerminator c then None
      else map_option Suc (findClose s))"

definition matchBold :: "jsstring \<Rightarrow> nat option" where
  "matchBold s =
     (if startsWith s (js ''**'') then map_option (\<lambda>n. n + 4) (findClose (drop 2 s)) else None)"

function splitBold :: "jsstring \<Rightarrow> jsstring \<Rightarrow> jsstring list" where
  "splitBold acc [] = [acc]"
| "splitBold acc (c # s) =
     (case matchBold (c # s) of
        Some n \<Rightarrow> acc # take n (c # s) # splitBold [] (drop n (c # s))
      | None \<Rightarrow> splitBold (acc @ [c]) s)"
  by pat_completeness auto
termination
  by (relation "measure (\<lambda>(acc, s). length s)")
    (auto simp: matchBold_def split: if_splits)

datatype inline = Strong jsstring | Span jsstring

datatype line_node = BulletLine "inline list" | PlainLine "inline list"

datatype rendered = Placeholder | Lines "line_node list"

definition renderPart :: "jsstring \<Rightarrow> inline" where
  "renderPart part =
     (if startsWith part (js ''**'') \<and> endsWith part (js ''**'')
      then Strong (slice part 2 (- 2)) else Span part)"

definition renderLine :: "jsstring \<Rightarrow> line_node" where
  "renderLine line =
     (let isBullet = (startsWith (trim line) (js ''- '') \<or> startsWith (trim line) (js ''* ''));
          cleanLine = (if isBullet then drop 2 (trim line) else line);
          parts = splitBold [] cleanLine
      in if isBullet then BulletLine (map renderPart parts) else PlainLine (map renderPart parts))"

definition renderContent :: "jsstring \<Rightarrow> rendered" where
  "renderContent val =
     (if val = [] then Placeholder
      else Lines (map renderLine (filter (\<lambda>line. trim line \<noteq> []) (splitOn 0x0A val))))"

section \<open>The string operations\<close>

text \<open>
  Splitting at a separator and joining with it gives the string back, and the parts of
  \<open>splitBold\<close> put together are the line: no character is lost by either split.
\<close>

lemma splitOn_not_Nil: "splitOn sep s \<noteq> []"
  by (induction s) (auto split: list.splits)

lemma joinWith_splitOn: "joinWith [sep] (splitOn sep s) = s"
proof (induction s)
  case Nil
  then show ?case by simp
next
  case (Cons c s)
  obtain part parts where sp: "splitOn sep s = part # parts"
    using splitOn_not_Nil [of sep s] by (cases "splitOn sep s") auto
  with Cons show ?case
    by (cases parts) auto
qed

lemma concat_splitBold: "concat (splitBold acc s) = acc @ s"
proof (induction acc s rule: splitBold.induct)
  case (1 acc)
  then show ?case by simp
next
  case (2 acc c s)
  show ?case
  proof (cases "matchBold (c # s)")
    case None
    with 2 show ?thesis by simp
  next
    case (Some n)
    with 2 show ?thesis by simp
  qed
qed

text \<open>
  After the two replacements of the export an insight holds no hyphen and no pair of
  stars, and every field of a data row is a quoted field.
\<close>

lemma hyphensToBullets_no_hyphen: "0x2D \<notin> set (hyphensToBullets s)"
  by (auto simp: hyphensToBullets_def)

lemma removeStars_other: "a \<noteq> 0x2A \<Longrightarrow> removeStars (a # s) = a # removeStars s"
  by (cases s) auto

lemma removeStars_no_pair: "\<not> includesStr (removeStars s) (js ''**'')"
  by (induction s rule: removeStars.induct) (auto simp: startsWith_def js_def removeStars_other)

lemma rowData_quoted: "f \<in> set (rowData cr p) \<Longrightarrow> \<exists>x. f = quoted x"
  by (auto simp: rowData_def insightField_def)

section \<open>\<^verbatim>\<open>updateCell\<close> on values\<close>

lemma updatePoint_other:
  "criteria point \<noteq> criteriaName \<Longrightarrow> updatePoint paperId criteriaName newValue point = point"
  by (simp add: updatePoint_def)

lemma criteria_updatePoint:
  "criteria (updatePoint paperId criteriaName newValue point) = criteria point"
  by (simp add: updatePoint_def)

lemma map_updatePoint_no_match:
  "criteriaName \<notin> set (map criteria cr) \<Longrightarrow> map (updatePoint paperId criteriaName newValue) cr = cr"
  by (induction cr) (auto simp: updatePoint_other)

text \<open>
  Claim C9. When the matrix is absent, or no dimension is named \<open>dim\<close>, \<open>updateCell\<close>
  leaves the state as it was: the resulting matrix has the same dimensions, in the same
  order, with the same insights. The model has no error branch, as the source has no
  \<^verbatim>\<open>throw\<close> on this path.
\<close>

theorem updateCell_miss_noop:
  assumes "comparisonResult s = None \<or>
           (\<exists>cr. comparisonResult s = Some cr \<and> dim \<notin> set (map criteria cr))"
  shows "updateCell doc dim text s = s"
  using assms
  by (auto simp: updateCell_def map_updatePoint_no_match)

theorem updateCell_miss_noop_witness:
  "updateCell (js ''d1'') (js ''Cost'') (js ''new'')
     \<lparr>comparisonResult = None, selectedIds = {}\<rparr>
     = \<lparr>comparisonResult = None, selectedIds = {}\<rparr>
   \<and> updateCell (js ''d1'') (js ''Cost'') (js ''new'')
     \<lparr>comparisonResult = Some [\<lparr>criteria = js ''Model'', paperInsights = [js ''d1'' \<mapsto> js ''old'']\<rparr>],
      selectedIds = {js ''d1''}\<rparr>
     = \<lparr>comparisonResult = Some [\<lparr>criteria = js ''Model'', paperInsights = [js ''d1'' \<mapsto> js ''old'']\<rparr>],
        selectedIds = {js ''d1''}\<rparr>"
proof -
  have miss: "js ''Cost'' \<noteq> js ''Model''"
    by (simp add: js_def)
  show ?thesis
    using updateCell_miss_noop [of "\<lparr>comparisonResult = None, selectedIds = {}\<rparr>"
        "js ''Cost''" "js ''d1''" "js ''new''"]
      updateCell_miss_noop [of
        "\<lparr>comparisonResult = Some [\<lparr>criteria = js ''Model'', paperInsights = [js ''d1'' \<mapsto> js ''old'']\<rparr>],
          selectedIds = {js ''d1''}\<rparr>"
        "js ''Cost''" "js ''d1''" "js ''new''"]
      miss
    by simp
qed

text \<open>
  Claim C10. Nothing makes dimension names distinct, and \<open>updateCell\<close> does not stop at
  the first match: after the edit, every dimension named \<open>dim\<close> holds \<open>text\<close> for \<open>doc\<close>,
  so one edit changes as many entries as there are dimensions of that name.
\<close>

theorem updateCell_every_match:
  assumes "comparisonResult s = Some cr"
  shows "\<exists>cr'. comparisonResult (updateCell doc dim text s) = Some cr' \<and>
           length cr' = length cr \<and>
           (\<forall>i < length cr. criteria (cr ! i) = dim \<longrightarrow>
               criteria (cr' ! i) = dim \<and> paperInsights (cr' ! i) doc = Some text)"
  using assms
  by (simp add: updateCell_def updatePoint_def)

theorem updateCell_every_match_witness:
  "\<exists>cr'. comparisonResult (updateCell (js ''d1'') (js ''Model'') (js ''new'')
       \<lparr>comparisonResult = Some
          [\<lparr>criteria = js ''Model'', paperInsights = [js ''d1'' \<mapsto> js ''a'']\<rparr>,
           \<lparr>criteria = js ''Model'', paperInsights = [js ''d1'' \<mapsto> js ''b'']\<rparr>],
        selectedIds = {}\<rparr>) = Some cr' \<and>
     length cr' = 2 \<and>
     paperInsights (cr' ! 0) (js ''d1'') = Some (js ''new'') \<and>
     paperInsights (cr' ! 1) (js ''d1'') = Some (js ''new'')"
  using updateCell_every_match [of
      "\<lparr>comparisonResult = Some
          [\<lparr>criteria = js ''Model'', paperInsights = [js ''d1'' \<mapsto> js ''a'']\<rparr>,
           \<lparr>criteria = js ''Model'', paperInsights = [js ''d1'' \<mapsto> js ''b'']\<rparr>],
        selectedIds = {}\<rparr>"
      "[\<lparr>criteria = js ''Model'', paperInsights = [js ''d1'' \<mapsto> js ''a'']\<rparr>,
        \<lparr>criteria = js ''Model'', paperInsights = [js ''d1'' \<mapsto> js ''b'']\<rparr>]"
      "js ''d1''" "js ''Model''" "js ''new''"]
  by (auto simp: less_Suc_eq numeral_2_eq_2)

section \<open>\<^verbatim>\<open>updateCell\<close> on the store refines \<^verbatim>\<open>updateCell\<close> on values\<close>

lemma deref_append: "deref h a = Some ob \<Longrightarrow> deref (h @ ext) a = Some ob"
  by (auto simp: deref_def nth_append split: if_splits)

lemma read_point_append: "read_point h a = Some pt \<Longrightarrow> read_point (h @ ext) a = Some pt"
  by (auto simp: read_point_def deref_append split: option.splits obj.splits)

lemma those_read_point_append:
  "those (map (read_point h) ps) = Some M \<Longrightarrow> those (map (read_point (h @ ext)) ps) = Some M"
  by (induction ps arbitrary: M) (auto simp: read_point_append split: option.splits)

lemma read_matrix_append: "read_matrix h r = Some M \<Longrightarrow> read_matrix (h @ ext) r = Some M"
  by (auto simp: read_matrix_def deref_append those_read_point_append split: option.splits obj.splits)

text \<open>
  On a point that the heap holds, \<open>updatePoint_store\<close> returns, only appends to the
  heap, and the address it gives stands for \<open>updatePoint\<close> of the point.
\<close>

lemma updatePoint_store_refines:
  assumes "read_point h p = Some pt"
  shows "\<exists>ext p'. updatePoint_store d c t h p = Some (h @ ext, p') \<and>
           read_point (h @ ext) p' = Some (updatePoint d c t pt)"
proof (cases "criteria pt = c")
  case False
  with assms have "updatePoint_store d c t h p = Some (h @ [], p)"
    by (auto simp: updatePoint_store_def read_point_def split: option.splits obj.splits)
  moreover from False assms have "read_point (h @ []) p = Some (updatePoint d c t pt)"
    by (simp add: updatePoint_other)
  ultimately show ?thesis by blast
next
  case True
  from assms obtain crit ins m where p: "deref h p = Some (PointObj crit ins)"
    and i: "deref h ins = Some (InsightsObj m)" and pt: "pt = \<lparr>criteria = crit, paperInsights = m\<rparr>"
    by (auto simp: read_point_def split: option.splits obj.splits)
  let ?ext = "[InsightsObj (m(d \<mapsto> t)), PointObj crit (length h)]"
  from True p i pt have "updatePoint_store d c t h p = Some (h @ ?ext, Suc (length h))"
    by (simp add: updatePoint_store_def alloc_def)
  moreover have "read_point (h @ ?ext) (Suc (length h)) = Some (updatePoint d c t pt)"
    using True pt by (simp add: read_point_def deref_def nth_append updatePoint_def)
  ultimately show ?thesis by blast
qed

lemma map_store_refines:
  "those (map (read_point h) ps) = Some M \<Longrightarrow>
   \<exists>ext ps'. map_store d c t h ps = Some (h @ ext, ps') \<and>
      those (map (read_point (h @ ext)) ps') = Some (map (updatePoint d c t) M)"
proof (induction ps arbitrary: h M)
  case Nil
  then show ?case by (auto intro: exI [of _ "[]"])
next
  case (Cons p ps)
  from Cons.prems obtain pt M' where pt: "read_point h p = Some pt"
    and M': "those (map (read_point h) ps) = Some M'" and M: "M = pt # M'"
    by (auto split: option.splits)
  from updatePoint_store_refines [OF pt, of d c t] obtain ext1 p'
    where s1: "updatePoint_store d c t h p = Some (h @ ext1, p')"
      and r1: "read_point (h @ ext1) p' = Some (updatePoint d c t pt)"
    by blast
  from those_read_point_append [OF M'] have "those (map (read_point (h @ ext1)) ps) = Some M'" .
  from Cons.IH [OF this] obtain ext2 ps'
    where s2: "map_store d c t (h @ ext1) ps = Some ((h @ ext1) @ ext2, ps')"
      and r2: "those (map (read_point ((h @ ext1) @ ext2)) ps') = Some (map (updatePoint d c t) M')"
    by blast
  from s1 s2 have "map_store d c t h (p # ps) = Some (h @ (ext1 @ ext2), p' # ps')"
    by simp
  moreover from read_point_append [OF r1, of ext2] r2 M
  have "those (map (read_point (h @ (ext1 @ ext2))) (p' # ps')) = Some (map (updatePoint d c t) M)"
    by simp
  ultimately show ?case by blast
qed

lemma updateCell_store_refines:
  assumes "read_matrix h r = Some M"
  shows "\<exists>h' r'. updateCell_store d c t h (Some r) = Some (h', Some r') \<and>
           take (length h) h' = h \<and>
           read_matrix h' r = Some M \<and>
           read_matrix h' r' = Some (map (updatePoint d c t) M)"
proof -
  from assms obtain ps where r: "deref h r = Some (ArrayObj ps)"
    and ps: "those (map (read_point h) ps) = Some M"
    by (auto simp: read_matrix_def split: option.splits obj.splits)
  from map_store_refines [OF ps, of d c t] obtain ext ps'
    where s: "map_store d c t h ps = Some (h @ ext, ps')"
      and rd: "those (map (read_point (h @ ext)) ps') = Some (map (updatePoint d c t) M)"
    by blast
  let ?h' = "h @ (ext @ [ArrayObj ps'])"
  from r s have "updateCell_store d c t h (Some r) = Some (?h', Some (length (h @ ext)))"
    by (simp add: updateCell_store_def alloc_def)
  moreover have "take (length h) ?h' = h" by simp
  moreover from read_matrix_append [OF assms] have "read_matrix ?h' r = Some M" .
  moreover have "read_matrix ?h' (length (h @ ext)) = Some (map (updatePoint d c t) M)"
    using those_read_point_append [OF rd, of "[ArrayObj ps']"]
    by (simp add: read_matrix_def deref_def nth_append)
  ultimately show ?thesis by blast
qed

text \<open>With distinct names, the map over the matrix changes the one dimension named \<open>c\<close>.\<close>

lemma map_updatePoint_distinct:
  assumes "distinct (map criteria M)" and "i < length M" and "criteria (M ! i) = c"
  shows "map (updatePoint d c t) M = M[i := (M ! i)\<lparr>paperInsights := (paperInsights (M ! i))(d \<mapsto> t)\<rparr>]"
proof (rule nth_equalityI)
  show "length (map (updatePoint d c t) M) =
        length (M[i := (M ! i)\<lparr>paperInsights := (paperInsights (M ! i))(d \<mapsto> t)\<rparr>])"
    by simp
next
  fix j assume "j < length (map (updatePoint d c t) M)"
  then have j: "j < length M" by simp
  show "map (updatePoint d c t) M ! j =
        M[i := (M ! i)\<lparr>paperInsights := (paperInsights (M ! i))(d \<mapsto> t)\<rparr>] ! j"
  proof (cases "j = i")
    case True
    with assms j show ?thesis by (simp add: updatePoint_def)
  next
    case False
    with assms j have "map criteria M ! j \<noteq> map criteria M ! i"
      by (simp add: nth_eq_iff_index_eq del: nth_map)
    with assms j have "criteria (M ! j) \<noteq> c" by simp
    with j False show ?thesis by (simp add: updatePoint_other)
  qed
qed

section \<open>The frame of \<^verbatim>\<open>updateCell\<close>\<close>

text \<open>
  Claim C1. Let the matrix at address \<open>r\<close> have pairwise distinct dimension names, one
  of them \<open>dim\<close>. Then \<open>updateCell\<close> returns, and the new matrix is the old one with the
  insight at (\<open>dim\<close>, \<open>doc\<close>) set to \<open>text\<close>: one index \<open>i\<close> holds the dimension
  named \<open>dim\<close>, and only that dimension's entry for \<open>doc\<close> differs. Dimension names
  and their order are the same, every other entry is the same, the run on the store
  and the run on values agree, and the previous matrix is not written to: the old heap
  is a prefix of the new one and the old address still stands for the old matrix.
\<close>

theorem updateCell_frame:
  assumes "read_matrix h r = Some M"
    and "distinct (map criteria M)"
    and "dim \<in> set (map criteria M)"
  shows "\<exists>h' r' i M'.
           updateCell_store doc dim text h (Some r) = Some (h', Some r') \<and>
           read_matrix h' r' = Some M' \<and>
           comparisonResult (updateCell doc dim text \<lparr>comparisonResult = Some M, selectedIds = sel\<rparr>) = Some M' \<and>
           i < length M \<and> criteria (M ! i) = dim \<and>
           M' = M[i := (M ! i)\<lparr>paperInsights := (paperInsights (M ! i))(doc \<mapsto> text)\<rparr>] \<and>
           map criteria M' = map criteria M \<and>
           paperInsights (M' ! i) doc = Some text \<and>
           (\<forall>j d. j < length M \<and> (j \<noteq> i \<or> d \<noteq> doc) \<longrightarrow>
               paperInsights (M' ! j) d = paperInsights (M ! j) d) \<and>
           take (length h) h' = h \<and>
           read_matrix h' r = Some M"
proof -
  from assms(3) obtain i where i: "i < length M" "criteria (M ! i) = dim"
    by (auto simp: in_set_conv_nth)
  let ?M' = "M[i := (M ! i)\<lparr>paperInsights := (paperInsights (M ! i))(doc \<mapsto> text)\<rparr>]"
  have upd: "map (updatePoint doc dim text) M = ?M'"
    using assms(2) i by (rule map_updatePoint_distinct)
  from updateCell_store_refines [OF assms(1), of doc dim "text"] obtain h' r'
    where st: "updateCell_store doc dim text h (Some r) = Some (h', Some r')"
      and old: "take (length h) h' = h" "read_matrix h' r = Some M"
      and new: "read_matrix h' r' = Some (map (updatePoint doc dim text) M)"
    by blast
  have pure: "comparisonResult (updateCell doc dim text \<lparr>comparisonResult = Some M, selectedIds = sel\<rparr>) = Some ?M'"
    by (simp add: updateCell_def upd)
  have names: "map criteria ?M' = map criteria M"
    using i by (simp add: map_update list_update_same_conv)
  have cell: "paperInsights (?M' ! i) doc = Some text"
    using i by simp
  have frame: "\<forall>j d. j < length M \<and> (j \<noteq> i \<or> d \<noteq> doc) \<longrightarrow>
                 paperInsights (?M' ! j) d = paperInsights (M ! j) d"
    using i by (auto simp: nth_list_update)
  show ?thesis
  proof (intro exI conjI)
    show "updateCell_store doc dim text h (Some r) = Some (h', Some r')" by (fact st)
    show "read_matrix h' r' = Some ?M'" using new upd by simp
    show "comparisonResult (updateCell doc dim text \<lparr>comparisonResult = Some M, selectedIds = sel\<rparr>) = Some ?M'"
      by (fact pure)
    show "i < length M" by (fact i(1))
    show "criteria (M ! i) = dim" by (fact i(2))
    show "?M' = M[i := (M ! i)\<lparr>paperInsights := (paperInsights (M ! i))(doc \<mapsto> text)\<rparr>]" by (rule refl)
    show "map criteria ?M' = map criteria M" by (fact names)
    show "paperInsights (?M' ! i) doc = Some text" by (fact cell)
    show "\<forall>j d. j < length M \<and> (j \<noteq> i \<or> d \<noteq> doc) \<longrightarrow>
            paperInsights (?M' ! j) d = paperInsights (M ! j) d" by (fact frame)
    show "take (length h) h' = h" by (fact old(1))
    show "read_matrix h' r = Some M" by (fact old(2))
  qed
qed

theorem updateCell_frame_witness:
  "read_matrix
     [InsightsObj [js ''d1'' \<mapsto> js ''a''], PointObj (js ''Model'') 0,
      InsightsObj [js ''d1'' \<mapsto> js ''b''], PointObj (js ''Cost'') 2,
      ArrayObj [1, 3]] 4
     = Some [\<lparr>criteria = js ''Model'', paperInsights = [js ''d1'' \<mapsto> js ''a'']\<rparr>,
             \<lparr>criteria = js ''Cost'', paperInsights = [js ''d1'' \<mapsto> js ''b'']\<rparr>] \<and>
   (\<exists>h' r'.
      updateCell_store (js ''d1'') (js ''Cost'') (js ''new'')
        [InsightsObj [js ''d1'' \<mapsto> js ''a''], PointObj (js ''Model'') 0,
         InsightsObj [js ''d1'' \<mapsto> js ''b''], PointObj (js ''Cost'') 2,
         ArrayObj [1, 3]] (Some 4) = Some (h', Some r') \<and>
      read_matrix h' r'
        = Some [\<lparr>criteria = js ''Model'', paperInsights = [js ''d1'' \<mapsto> js ''a'']\<rparr>,
                \<lparr>criteria = js ''Cost'', paperInsights = [js ''d1'' \<mapsto> js ''new'']\<rparr>] \<and>
      read_matrix h' 4
        = Some [\<lparr>criteria = js ''Model'', paperInsights = [js ''d1'' \<mapsto> js ''a'']\<rparr>,
                \<lparr>criteria = js ''Cost'', paperInsights = [js ''d1'' \<mapsto> js ''b'']\<rparr>])"
proof -
  let ?h = "[InsightsObj [js ''d1'' \<mapsto> js ''a''], PointObj (js ''Model'') 0,
             InsightsObj [js ''d1'' \<mapsto> js ''b''], PointObj (js ''Cost'') 2,
             ArrayObj [1, 3]]"
  let ?M = "[\<lparr>criteria = js ''Model'', paperInsights = [js ''d1'' \<mapsto> js ''a'']\<rparr>,
             \<lparr>criteria = js ''Cost'', paperInsights = [js ''d1'' \<mapsto> js ''b'']\<rparr>]"
  have rd: "read_matrix ?h 4 = Some ?M"
    by (simp add: read_matrix_def read_point_def deref_def)
  have ne: "js ''Model'' \<noteq> js ''Cost''"
    by (simp add: js_def)
  then have dist: "distinct (map criteria ?M)"
    by simp
  have mem: "js ''Cost'' \<in> set (map criteria ?M)"
    by simp
  from updateCell_frame [OF rd dist mem, of "js ''d1''" "js ''new''" "{}"]
  obtain h' r' i M' where st: "updateCell_store (js ''d1'') (js ''Cost'') (js ''new'') ?h (Some 4) = Some (h', Some r')"
    and new: "read_matrix h' r' = Some M'"
    and i: "i < length ?M" "criteria (?M ! i) = js ''Cost''"
    and M': "M' = ?M[i := (?M ! i)\<lparr>paperInsights := (paperInsights (?M ! i))(js ''d1'' \<mapsto> js ''new'')\<rparr>]"
    and old: "read_matrix h' 4 = Some ?M"
    by (elim exE conjE) (rule that)
  from i ne have "i = 1"
    by (cases i) auto
  with M' have "M' = [\<lparr>criteria = js ''Model'', paperInsights = [js ''d1'' \<mapsto> js ''a'']\<rparr>,
                      \<lparr>criteria = js ''Cost'', paperInsights = [js ''d1'' \<mapsto> js ''new'']\<rparr>]"
    by simp
  with new have new': "read_matrix h' r' = Some [\<lparr>criteria = js ''Model'', paperInsights = [js ''d1'' \<mapsto> js ''a'']\<rparr>,
                      \<lparr>criteria = js ''Cost'', paperInsights = [js ''d1'' \<mapsto> js ''new'']\<rparr>]"
    by simp
  show ?thesis
    by (intro conjI exI) (fact rd st new' old)+
qed

section \<open>Transposition and sorting\<close>

text \<open>
  Claim C2. The active document set is the set of keys of the first dimension's insight
  mapping, and is empty when the matrix is absent or has no dimension. The table's
  document list before sorting is the input list filtered by membership in that set,
  so a subsequence of the input in its order. Adding entries to the mapping of a
  dimension that is not the first leaves the active set as it was.
\<close>

theorem activeResultIds_first_dimension:
  "(comparisonResult s = None \<longrightarrow> activeResultIds s = {}) \<and>
   (comparisonResult s = Some [] \<longrightarrow> activeResultIds s = {}) \<and>
   (\<forall>first others. comparisonResult s = Some (first # others) \<longrightarrow>
       activeResultIds s = dom (paperInsights first)) \<and>
   tablePapers_filtered papers s = filter (\<lambda>p. id_paper p \<in> activeResultIds s) papers \<and>
   subseq (tablePapers_filtered papers s) papers \<and>
   (\<forall>cr i extra. comparisonResult s = Some cr \<and> 0 < i \<and> i < length cr \<longrightarrow>
       activeResultIds
         (s\<lparr>comparisonResult :=
              Some (cr[i := (cr ! i)\<lparr>paperInsights := paperInsights (cr ! i) ++ extra\<rparr>])\<rparr>)
       = activeResultIds s)"
proof (intro conjI allI impI)
  show "activeResultIds s = {}" if "comparisonResult s = None"
    using that by (simp add: activeResultIds_def)
  show "activeResultIds s = {}" if "comparisonResult s = Some []"
    using that by (simp add: activeResultIds_def)
  show "activeResultIds s = dom (paperInsights first)"
    if "comparisonResult s = Some (first # others)" for first others
    using that by (simp add: activeResultIds_def)
  show "tablePapers_filtered papers s = filter (\<lambda>p. id_paper p \<in> activeResultIds s) papers"
    by (simp add: tablePapers_filtered_def)
  show "subseq (tablePapers_filtered papers s) papers"
    by (simp add: tablePapers_filtered_def)
  show "activeResultIds
         (s\<lparr>comparisonResult :=
              Some (cr[i := (cr ! i)\<lparr>paperInsights := paperInsights (cr ! i) ++ extra\<rparr>])\<rparr>)
       = activeResultIds s"
    if "comparisonResult s = Some cr \<and> 0 < i \<and> i < length cr" for cr i extra
  proof (cases cr)
    case Nil
    with that show ?thesis by simp
  next
    case (Cons first others)
    with that show ?thesis
      by (cases i) (simp_all add: activeResultIds_def)
  qed
qed


theorem activeResultIds_first_dimension_witness:
  "activeResultIds
     \<lparr>comparisonResult = Some
        [\<lparr>criteria = js ''Design'', paperInsights = [js ''d1'' \<mapsto> js ''a'', js ''d3'' \<mapsto> js ''c'']\<rparr>,
         \<lparr>criteria = js ''Cost'', paperInsights = [js ''d1'' \<mapsto> js ''x'']\<rparr>],
      selectedIds = {}\<rparr>
     = {js ''d1'', js ''d3''} \<and>
   tablePapers_filtered
     [mkPaper (js ''d1'') (js ''1.pdf'') (js ''One''), mkPaper (js ''d2'') (js ''2.pdf'') (js ''Two''),
      mkPaper (js ''d3'') (js ''3.pdf'') (js ''Three'')]
     \<lparr>comparisonResult = Some
        [\<lparr>criteria = js ''Design'', paperInsights = [js ''d1'' \<mapsto> js ''a'', js ''d3'' \<mapsto> js ''c'']\<rparr>,
         \<lparr>criteria = js ''Cost'', paperInsights = [js ''d1'' \<mapsto> js ''x'']\<rparr>],
      selectedIds = {}\<rparr>
     = [mkPaper (js ''d1'') (js ''1.pdf'') (js ''One''), mkPaper (js ''d3'') (js ''3.pdf'') (js ''Three'')] \<and>
   activeResultIds
     \<lparr>comparisonResult = Some
        [\<lparr>criteria = js ''Design'', paperInsights = [js ''d1'' \<mapsto> js ''a'', js ''d3'' \<mapsto> js ''c'']\<rparr>,
         \<lparr>criteria = js ''Cost'', paperInsights = [js ''d1'' \<mapsto> js ''x''] ++ [js ''d2'' \<mapsto> js ''y'']\<rparr>],
      selectedIds = {}\<rparr>
     = {js ''d1'', js ''d3''}"
proof -
  let ?first = "\<lparr>criteria = js ''Design'', paperInsights = [js ''d1'' \<mapsto> js ''a'', js ''d3'' \<mapsto> js ''c'']\<rparr>"
  let ?second = "\<lparr>criteria = js ''Cost'', paperInsights = [js ''d1'' \<mapsto> js ''x'']\<rparr>"
  let ?s = "\<lparr>comparisonResult = Some [?first, ?second], selectedIds = {}\<rparr>"
  let ?papers = "[mkPaper (js ''d1'') (js ''1.pdf'') (js ''One''), mkPaper (js ''d2'') (js ''2.pdf'') (js ''Two''),
      mkPaper (js ''d3'') (js ''3.pdf'') (js ''Three'')]"
  note T = activeResultIds_first_dimension [of ?s ?papers]
  from T have "\<forall>first others. comparisonResult ?s = Some (first # others) \<longrightarrow>
       activeResultIds ?s = dom (paperInsights first)"
    by (elim conjE)
  then have active: "activeResultIds ?s = {js ''d1'', js ''d3''}"
    by auto
  from T have "tablePapers_filtered ?papers ?s = filter (\<lambda>p. id_paper p \<in> activeResultIds ?s) ?papers"
    by (elim conjE)
  with active have filtered: "tablePapers_filtered ?papers ?s
      = [mkPaper (js ''d1'') (js ''1.pdf'') (js ''One''), mkPaper (js ''d3'') (js ''3.pdf'') (js ''Three'')]"
    by (simp add: mkPaper_def js_def)
  from T have "\<forall>cr i extra. comparisonResult ?s = Some cr \<and> 0 < i \<and> i < length cr \<longrightarrow>
       activeResultIds
         (?s\<lparr>comparisonResult :=
              Some (cr[i := (cr ! i)\<lparr>paperInsights := paperInsights (cr ! i) ++ extra\<rparr>])\<rparr>)
       = activeResultIds ?s"
    by (elim conjE)
  from this [rule_format, of "[?first, ?second]" 1 "[js ''d2'' \<mapsto> js ''y'']"] active
  have later: "activeResultIds
     \<lparr>comparisonResult = Some
        [?first, \<lparr>criteria = js ''Cost'', paperInsights = [js ''d1'' \<mapsto> js ''x''] ++ [js ''d2'' \<mapsto> js ''y'']\<rparr>],
      selectedIds = {}\<rparr>
     = {js ''d1'', js ''d3''}"
    by simp
  from active filtered later show ?thesis
    by (intro conjI)
qed

lemma startsWith_prefix: "startsWith s p = prefix p s"
  by (metis append_eq_conv_conj prefix_def startsWith_def)

lemma includesStr_sublist: "includesStr s p = sublist p s"
  by (induction s) (auto simp: startsWith_prefix sublist_Cons_right)

lemma modelCriteria_first:
  assumes "i < length cr" and "isModelCriteria env (cr ! i)"
    and "\<forall>j<i. \<not> isModelCriteria env (cr ! j)"
  shows "modelCriteria env cr = Some (cr ! i)"
  using assms unfolding modelCriteria_def find_Some_iff by blast

lemma modelCriteria_none:
  assumes "\<forall>c \<in> set cr. \<not> isModelCriteria env c"
  shows "modelCriteria env cr = None"
  using assms unfolding modelCriteria_def find_None_iff by blast

text \<open>
  Claim C3, as amended. With a matrix present, let \<open>i\<close> be the first index, in matrix
  order, of a dimension whose name, lowercased by the host's \<^verbatim>\<open>toLowerCase\<close>, contains
  \<open>model\<close> or \<open>architecture\<close>. Then the table list is the stable sort of the filtered
  list by the lowercased insight text of that dimension (the empty string when absent)
  under the host's comparison \<^verbatim>\<open>localeCompare\<close>, whatever consistent comparison that
  is: it has the same documents, it is sorted by that key under that comparison, and
  documents whose keys compare equal keep their order. When no dimension matches, the
  table list is the filtered list.
\<close>

theorem tablePapers_sorter:
  assumes "comparisonResult s = Some cr"
  shows "(\<forall>i. i < length cr \<and> isModelCriteria env (cr ! i) \<and> (\<forall>j<i. \<not> isModelCriteria env (cr ! j)) \<longrightarrow>
            tablePapers env papers s =
              Sorting_Algorithms.sort (key (modelKey env (cr ! i)) (localeCompare env))
                (tablePapers_filtered papers s) \<and>
            mset (tablePapers env papers s) = mset (tablePapers_filtered papers s) \<and>
            Sorting_Algorithms.sorted (key (modelKey env (cr ! i)) (localeCompare env))
              (tablePapers env papers s) \<and>
            (\<forall>p. filter (\<lambda>q. compare (localeCompare env)
                                (modelKey env (cr ! i) p) (modelKey env (cr ! i) q) = Equiv)
                    (tablePapers env papers s)
                = filter (\<lambda>q. compare (localeCompare env)
                                (modelKey env (cr ! i) p) (modelKey env (cr ! i) q) = Equiv)
                    (tablePapers_filtered papers s))) \<and>
         ((\<forall>c \<in> set cr. \<not> isModelCriteria env c) \<longrightarrow>
            tablePapers env papers s = tablePapers_filtered papers s)"
proof (intro conjI allI impI)
  fix i
  assume i: "i < length cr \<and> isModelCriteria env (cr ! i) \<and> (\<forall>j<i. \<not> isModelCriteria env (cr ! j))"
  then have found: "modelCriteria env cr = Some (cr ! i)"
    by (simp add: modelCriteria_first)
  let ?cmp = "key (modelKey env (cr ! i)) (localeCompare env)"
  show eq: "tablePapers env papers s = Sorting_Algorithms.sort ?cmp (tablePapers_filtered papers s)"
    using assms found by (simp add: tablePapers_def)
  show "mset (tablePapers env papers s) = mset (tablePapers_filtered papers s)"
    by (simp add: eq)
  show "Sorting_Algorithms.sorted ?cmp (tablePapers env papers s)"
    by (simp add: eq)
  fix p
  have "stable_segment ?cmp p (Sorting_Algorithms.sort ?cmp (tablePapers_filtered papers s))
      = stable_segment ?cmp p (tablePapers_filtered papers s)"
    by (rule stable_sort)
  then show "filter (\<lambda>q. compare (localeCompare env)
                                (modelKey env (cr ! i) p) (modelKey env (cr ! i) q) = Equiv)
                    (tablePapers env papers s)
                = filter (\<lambda>q. compare (localeCompare env)
                                (modelKey env (cr ! i) p) (modelKey env (cr ! i) q) = Equiv)
                    (tablePapers_filtered papers s)"
    by (simp add: eq)
next
  assume "\<forall>c \<in> set cr. \<not> isModelCriteria env c"
  then have "modelCriteria env cr = None"
    by (rule modelCriteria_none)
  with assms show "tablePapers env papers s = tablePapers_filtered papers s"
    by (simp add: tablePapers_def)
qed

theorem tablePapers_sorter_witness:
  "comparisonResult \<lparr>comparisonResult = Some exampleMatrix, selectedIds = {}\<rparr> = Some exampleMatrix \<and>
   map (isModelCriteria asciiHost) exampleMatrix = [False, True, False] \<and>
   tablePapers asciiHost
     [mkPaper (js ''d1'') (js ''1.pdf'') (js ''One''), mkPaper (js ''d2'') (js ''2.pdf'') (js ''Two''),
      mkPaper (js ''d3'') (js ''3.pdf'') (js ''Three'')]
     \<lparr>comparisonResult = Some exampleMatrix, selectedIds = {}\<rparr>
   = Sorting_Algorithms.sort (key (modelKey asciiHost (exampleMatrix ! 1)) (localeCompare asciiHost))
       (tablePapers_filtered
          [mkPaper (js ''d1'') (js ''1.pdf'') (js ''One''), mkPaper (js ''d2'') (js ''2.pdf'') (js ''Two''),
           mkPaper (js ''d3'') (js ''3.pdf'') (js ''Three'')]
          \<lparr>comparisonResult = Some exampleMatrix, selectedIds = {}\<rparr>) \<and>
   tablePapers asciiHost
     [mkPaper (js ''d1'') (js ''1.pdf'') (js ''One''), mkPaper (js ''d2'') (js ''2.pdf'') (js ''Two''),
      mkPaper (js ''d3'') (js ''3.pdf'') (js ''Three'')]
     \<lparr>comparisonResult = Some exampleMatrix, selectedIds = {}\<rparr>
   = [mkPaper (js ''d2'') (js ''2.pdf'') (js ''Two''), mkPaper (js ''d3'') (js ''3.pdf'') (js ''Three''),
      mkPaper (js ''d1'') (js ''1.pdf'') (js ''One'')]"
proof -
  let ?s = "\<lparr>comparisonResult = Some exampleMatrix, selectedIds = {}\<rparr>"
  let ?papers = "[mkPaper (js ''d1'') (js ''1.pdf'') (js ''One''), mkPaper (js ''d2'') (js ''2.pdf'') (js ''Two''),
      mkPaper (js ''d3'') (js ''3.pdf'') (js ''Three'')]"
  have st: "comparisonResult ?s = Some exampleMatrix"
    by simp
  have sel: "map (isModelCriteria asciiHost) exampleMatrix = [False, True, False]"
    by (simp add: exampleMatrix_def isModelCriteria_def asciiHost_def asciiLower_def js_def startsWith_def)
  have len: "length exampleMatrix = 3"
    by (simp add: exampleMatrix_def)
  have first: "(1::nat) < length exampleMatrix \<and> isModelCriteria asciiHost (exampleMatrix ! 1) \<and>
      (\<forall>j<1. \<not> isModelCriteria asciiHost (exampleMatrix ! j))"
  proof -
    from sel have "map (isModelCriteria asciiHost) exampleMatrix ! 0 = False"
      and "map (isModelCriteria asciiHost) exampleMatrix ! 1 = True"
      by simp_all
    with len show ?thesis
      by simp
  qed
  from tablePapers_sorter [OF st, of asciiHost ?papers] first
  have sorted_by: "tablePapers asciiHost ?papers ?s
      = Sorting_Algorithms.sort (key (modelKey asciiHost (exampleMatrix ! 1)) (localeCompare asciiHost))
          (tablePapers_filtered ?papers ?s)"
    by blast
  have filtered: "tablePapers_filtered ?papers ?s = ?papers"
    by (simp add: tablePapers_filtered_def activeResultIds_def exampleMatrix_def mkPaper_def js_def)
  have result: "Sorting_Algorithms.sort (key (modelKey asciiHost (exampleMatrix ! 1)) (localeCompare asciiHost)) ?papers
      = [mkPaper (js ''d2'') (js ''2.pdf'') (js ''Two''), mkPaper (js ''d3'') (js ''3.pdf'') (js ''Three''),
         mkPaper (js ''d1'') (js ''1.pdf'') (js ''One'')]"
    by (simp add: modelKey_def insightOf_def exampleMatrix_def mkPaper_def asciiHost_def asciiLower_def js_def)
  from st sel sorted_by filtered result show ?thesis
    by simp
qed

text \<open>
  The claim as stated has the keys compared in lexicographic order. The order is the
  host's collation instead: on a host that sorts accented letters with their base
  letters, the document whose key starts with \<open>e\<close> with an acute accent comes before
  the one whose key is \<open>premier\<close>, though \<open>premier\<close> is the smaller of the two keys in
  the lexicographic order of code units.
\<close>

theorem tablePapers_sorter_counterexample:
  "tablePapers collatingHost
     [mkPaper (js ''d1'') (js ''1.pdf'') (js ''One''), mkPaper (js ''d2'') (js ''2.pdf'') (js ''Two'')]
     \<lparr>comparisonResult = Some
        [\<lparr>criteria = js ''Model'',
          paperInsights = [js ''d1'' \<mapsto> js ''premier'', js ''d2'' \<mapsto> 0xE9 # js ''clair'']\<rparr>],
      selectedIds = {}\<rparr>
   = [mkPaper (js ''d2'') (js ''2.pdf'') (js ''Two''), mkPaper (js ''d1'') (js ''1.pdf'') (js ''One'')] \<and>
   modelKey collatingHost
     \<lparr>criteria = js ''Model'',
      paperInsights = [js ''d1'' \<mapsto> js ''premier'', js ''d2'' \<mapsto> 0xE9 # js ''clair'']\<rparr>
     (mkPaper (js ''d1'') (js ''1.pdf'') (js ''One''))
   < modelKey collatingHost
     \<lparr>criteria = js ''Model'',
      paperInsights = [js ''d1'' \<mapsto> js ''premier'', js ''d2'' \<mapsto> 0xE9 # js ''clair'']\<rparr>
     (mkPaper (js ''d2'') (js ''2.pdf'') (js ''Two''))"
proof -
  let ?mc = "\<lparr>criteria = js ''Model'',
      paperInsights = [js ''d1'' \<mapsto> js ''premier'', js ''d2'' \<mapsto> 0xE9 # js ''clair'']\<rparr>"
  let ?s = "\<lparr>comparisonResult = Some [?mc], selectedIds = {}\<rparr>"
  let ?p1 = "mkPaper (js ''d1'') (js ''1.pdf'') (js ''One'')"
  let ?p2 = "mkPaper (js ''d2'') (js ''2.pdf'') (js ''Two'')"
  have k1: "modelKey collatingHost ?mc ?p1 = js ''premier''"
    by (simp add: modelKey_def insightOf_def mkPaper_def collatingHost_def asciiLower_def js_def)
  have k2: "modelKey collatingHost ?mc ?p2 = 0xE9 # js ''clair''"
    by (simp add: modelKey_def insightOf_def mkPaper_def collatingHost_def asciiLower_def js_def)
  have lex: "js ''premier'' < 0xE9 # js ''clair''"
    by (simp add: js_def)
  have found: "modelCriteria collatingHost [?mc] = Some ?mc"
    by (simp add: modelCriteria_def isModelCriteria_def collatingHost_def asciiLower_def js_def
        startsWith_def)
  have filtered: "tablePapers_filtered [?p1, ?p2] ?s = [?p1, ?p2]"
    by (simp add: tablePapers_filtered_def activeResultIds_def mkPaper_def js_def)
  have cmp: "compare (localeCompare collatingHost) (js ''premier'') (0xE9 # js ''clair'') = Greater"
    by (simp add: collatingHost_def collationKey_def baseLetter_def js_def)
  have sorted_list: "Sorting_Algorithms.sort (key (modelKey collatingHost ?mc) (localeCompare collatingHost))
        [?p1, ?p2] = [?p2, ?p1]"
    by (simp add: k1 k2 cmp)
  have "tablePapers collatingHost [?p1, ?p2] ?s
      = Sorting_Algorithms.sort (key (modelKey collatingHost ?mc) (localeCompare collatingHost))
          (tablePapers_filtered [?p1, ?p2] ?s)"
    by (simp add: tablePapers_def found del: sort_simps)
  then have tab: "tablePapers collatingHost [?p1, ?p2] ?s = [?p2, ?p1]"
    by (simp only: filtered sorted_list)
  from k1 k2 lex have keys: "modelKey collatingHost ?mc ?p1 < modelKey collatingHost ?mc ?p2"
    by (simp only:)
  from tab keys show ?thesis
    by (intro conjI)
qed

section \<open>The export\<close>

lemma paperIdsInResult_active:
  "comparisonResult s = Some cr \<Longrightarrow> paperIdsInResult cr = activeResultIds s"
  by (simp add: paperIdsInResult_def activeResultIds_def)

lemma relevantPapers_filtered:
  "comparisonResult s = Some cr \<Longrightarrow> relevantPapers papers cr = tablePapers_filtered papers s"
  by (simp add: relevantPapers_def tablePapers_filtered_def paperIdsInResult_active)

lemma mset_tablePapers: "mset (tablePapers env papers s) = mset (tablePapers_filtered papers s)"
  by (simp add: tablePapers_def split: option.splits)



text \<open>
  Claim C4. The claim has every field of the export in double quotes, the fields of the
  header row included. \<open>downloadCSV\<close> quotes the fields of the data rows only: the
  header row is \<^verbatim>\<open>headers.join(',')\<close> on the bare names. For one document and one
  dimension named \<open>Cost, Time\<close>, the header row is
  \<open>Paper Title,Authors/Year (Ref),Cost, Time\<close> with no quotes, so the comma of the name
  reads as a separator, while the data row is quoted and escaped as the claim says:
  the insight \<open>He said "hi" - ok\<close> becomes \<open>"He said ""hi"" . ok"\<close> with the bullet
  U+2022 in place of the hyphen.
\<close>

theorem downloadCSV_header_unquoted:
  \<open>snd (downloadCSV [mkPaper (js ''d1'') (js ''f.pdf'') (js ''T'')]
     \<lparr>comparisonResult = Some
        [\<lparr>criteria = js ''Cost, Time'', paperInsights = [js ''d1'' \<mapsto> js ''He said "hi" - ok'']\<rparr>],
      selectedIds = {js ''d1''}\<rparr>)
   = Inr (Some (js ''data:text/csv;charset=utf-8,Paper Title,Authors/Year (Ref),Cost, Time''
           @ [0x0A] @ js ''"T","f.pdf","He said ""hi"" '' @ [0x2022] @ js '' ok"''))\<close>
  by (simp add: downloadCSV_def csvContent_def csvText_def headers_def criteriaNames_def rows_def
      rowData_def quoted_def doubleQuotes_def insightField_def insightOf_def hyphensToBullets_def
      relevantPapers_def paperIdsInResult_def mkPaper_def js_def
      isLeadSurrogate_def isTrailSurrogate_def)





text \<open>
  Claim C6, as amended. Export never changes the state. When the matrix is absent or the
  selection \<open>selectedIds\<close> is empty, it produces nothing. An empty table list does not
  stop it: with a matrix and a non-empty selection, an empty table list gives the
  header row alone, or the throw of \<^verbatim>\<open>encodeURI\<close> when a dimension name holds an
  unpaired surrogate.
\<close>

theorem downloadCSV_noop:
  "fst (downloadCSV papers s) = s \<and>
   (comparisonResult s = None \<or> selectedIds s = {} \<longrightarrow> snd (downloadCSV papers s) = Inr None) \<and>
   (\<forall>cr. comparisonResult s = Some cr \<and> selectedIds s \<noteq> {} \<and> tablePapers env papers s = [] \<longrightarrow>
      snd (downloadCSV papers s) =
        (if hasUnpairedSurrogate (js ''data:text/csv;charset=utf-8,'' @ joinWith (js '','') (headers cr))
         then Inl URIError
         else Inr (Some (js ''data:text/csv;charset=utf-8,'' @ joinWith (js '','') (headers cr)))))"
proof (intro conjI allI impI)
  show "fst (downloadCSV papers s) = s"
    by (simp add: downloadCSV_def)
  show "snd (downloadCSV papers s) = Inr None" if "comparisonResult s = None \<or> selectedIds s = {}"
    using that by (auto simp: downloadCSV_def split: option.splits)
  fix cr
  assume a: "comparisonResult s = Some cr \<and> selectedIds s \<noteq> {} \<and> tablePapers env papers s = []"
  then have "mset (tablePapers_filtered papers s) = {#}"
    using mset_tablePapers [of env papers s] by simp
  with a have "relevantPapers papers cr = []"
    using relevantPapers_filtered [of s cr papers] by simp
  with a show "snd (downloadCSV papers s) =
        (if hasUnpairedSurrogate (js ''data:text/csv;charset=utf-8,'' @ joinWith (js '','') (headers cr))
         then Inl URIError
         else Inr (Some (js ''data:text/csv;charset=utf-8,'' @ joinWith (js '','') (headers cr))))"
    by (simp add: downloadCSV_def csvContent_def csvText_def rows_def)
qed

theorem downloadCSV_noop_witness:
  "downloadCSV [mkPaper (js ''d1'') (js ''1.pdf'') (js ''One'')]
     \<lparr>comparisonResult = None, selectedIds = {js ''d1''}\<rparr>
   = (\<lparr>comparisonResult = None, selectedIds = {js ''d1''}\<rparr>, Inr None) \<and>
   tablePapers asciiHost [mkPaper (js ''d1'') (js ''1.pdf'') (js ''One'')]
     \<lparr>comparisonResult = Some [], selectedIds = {js ''d1''}\<rparr> = [] \<and>
   downloadCSV [mkPaper (js ''d1'') (js ''1.pdf'') (js ''One'')]
     \<lparr>comparisonResult = Some [], selectedIds = {js ''d1''}\<rparr>
   = (\<lparr>comparisonResult = Some [], selectedIds = {js ''d1''}\<rparr>,
      Inr (Some (js ''data:text/csv;charset=utf-8,Paper Title,Authors/Year (Ref)''))) \<and>
   tablePapers asciiHost [mkPaper (js ''d1'') (js ''1.pdf'') (js ''One'')]
     \<lparr>comparisonResult = Some [\<lparr>criteria = [0x61, 0xD800, 0x62], paperInsights = Map.empty\<rparr>],
      selectedIds = {js ''d1''}\<rparr> = [] \<and>
   downloadCSV [mkPaper (js ''d1'') (js ''1.pdf'') (js ''One'')]
     \<lparr>comparisonResult = Some [\<lparr>criteria = [0x61, 0xD800, 0x62], paperInsights = Map.empty\<rparr>],
      selectedIds = {js ''d1''}\<rparr>
   = (\<lparr>comparisonResult = Some [\<lparr>criteria = [0x61, 0xD800, 0x62], paperInsights = Map.empty\<rparr>],
       selectedIds = {js ''d1''}\<rparr>, Inl URIError)"
proof -
  let ?papers = "[mkPaper (js ''d1'') (js ''1.pdf'') (js ''One'')]"
  let ?n = "\<lparr>comparisonResult = None, selectedIds = {js ''d1''}\<rparr>"
  let ?s = "\<lparr>comparisonResult = Some [], selectedIds = {js ''d1''}\<rparr>"
  let ?bad = "[\<lparr>criteria = [0x61, 0xD800, 0x62], paperInsights = Map.empty\<rparr>]"
  let ?u = "\<lparr>comparisonResult = Some ?bad, selectedIds = {js ''d1''}\<rparr>"
  have absent: "downloadCSV ?papers ?n = (?n, Inr None)"
    using downloadCSV_noop [of ?papers ?n asciiHost] by (simp add: prod_eq_iff)
  have table: "tablePapers asciiHost ?papers ?s = []"
    by (simp add: tablePapers_def tablePapers_filtered_def activeResultIds_def modelCriteria_def)
  have hyp: "comparisonResult ?s = Some [] \<and> selectedIds ?s \<noteq> {} \<and> tablePapers asciiHost ?papers ?s = []"
    using table by simp
  note T = downloadCSV_noop [of ?papers ?s asciiHost]
  from T have state: "fst (downloadCSV ?papers ?s) = ?s"
    by (elim conjE)
  from T have "\<forall>cr. comparisonResult ?s = Some cr \<and> selectedIds ?s \<noteq> {} \<and> tablePapers asciiHost ?papers ?s = [] \<longrightarrow>
      snd (downloadCSV ?papers ?s) =
        (if hasUnpairedSurrogate (js ''data:text/csv;charset=utf-8,'' @ joinWith (js '','') (headers cr))
         then Inl URIError
         else Inr (Some (js ''data:text/csv;charset=utf-8,'' @ joinWith (js '','') (headers cr))))"
    by (elim conjE)
  from this [rule_format, OF hyp]
  have "snd (downloadCSV ?papers ?s)
      = Inr (Some (js ''data:text/csv;charset=utf-8,Paper Title,Authors/Year (Ref)''))"
    by (simp add: headers_def criteriaNames_def js_def isLeadSurrogate_def isTrailSurrogate_def)
  with state have header: "downloadCSV ?papers ?s
      = (?s, Inr (Some (js ''data:text/csv;charset=utf-8,Paper Title,Authors/Year (Ref)'')))"
    by (simp add: prod_eq_iff)
  have "tablePapers_filtered ?papers ?u = []"
    by (simp add: tablePapers_filtered_def activeResultIds_def)
  then have "mset (tablePapers asciiHost ?papers ?u) = {#}"
    by (simp add: mset_tablePapers)
  then have table_u: "tablePapers asciiHost ?papers ?u = []"
    by simp
  have hyp_u: "comparisonResult ?u = Some ?bad \<and> selectedIds ?u \<noteq> {} \<and> tablePapers asciiHost ?papers ?u = []"
    using table_u by simp
  note U = downloadCSV_noop [of ?papers ?u asciiHost]
  from U have state_u: "fst (downloadCSV ?papers ?u) = ?u"
    by (elim conjE)
  from U have "\<forall>cr. comparisonResult ?u = Some cr \<and> selectedIds ?u \<noteq> {} \<and> tablePapers asciiHost ?papers ?u = [] \<longrightarrow>
      snd (downloadCSV ?papers ?u) =
        (if hasUnpairedSurrogate (js ''data:text/csv;charset=utf-8,'' @ joinWith (js '','') (headers cr))
         then Inl URIError
         else Inr (Some (js ''data:text/csv;charset=utf-8,'' @ joinWith (js '','') (headers cr))))"
    by (elim conjE)
  from this [rule_format, OF hyp_u]
  have "snd (downloadCSV ?papers ?u) = Inl URIError"
    by (simp add: headers_def criteriaNames_def js_def isLeadSurrogate_def isTrailSurrogate_def)
  with state_u have thrown: "downloadCSV ?papers ?u = (?u, Inl URIError)"
    by (simp add: prod_eq_iff)
  from absent table header table_u thrown show ?thesis
    by (intro conjI)
qed

text \<open>
  The claim as stated fails: a matrix whose first dimension has no entries and a
  selection of one document give an empty table list and a header row as output.
\<close>

theorem downloadCSV_noop_counterexample:
  "tablePapers asciiHost [mkPaper (js ''d1'') (js ''1.pdf'') (js ''One'')]
     \<lparr>comparisonResult = Some [\<lparr>criteria = js ''Model'', paperInsights = Map.empty\<rparr>],
      selectedIds = {js ''d1''}\<rparr> = [] \<and>
   snd (downloadCSV [mkPaper (js ''d1'') (js ''1.pdf'') (js ''One'')]
     \<lparr>comparisonResult = Some [\<lparr>criteria = js ''Model'', paperInsights = Map.empty\<rparr>],
      selectedIds = {js ''d1''}\<rparr>)
   = Inr (Some (js ''data:text/csv;charset=utf-8,Paper Title,Authors/Year (Ref),Model''))"
proof -
  let ?s = "\<lparr>comparisonResult = Some [\<lparr>criteria = js ''Model'', paperInsights = Map.empty\<rparr>],
      selectedIds = {js ''d1''}\<rparr>"
  let ?papers = "[mkPaper (js ''d1'') (js ''1.pdf'') (js ''One'')]"
  have "tablePapers_filtered ?papers ?s = []"
    by (simp add: tablePapers_filtered_def activeResultIds_def)
  then have "mset (tablePapers asciiHost ?papers ?s) = {#}"
    by (simp add: mset_tablePapers)
  then have table: "tablePapers asciiHost ?papers ?s = []"
    by simp
  have out: "snd (downloadCSV ?papers ?s)
      = Inr (Some (js ''data:text/csv;charset=utf-8,Paper Title,Authors/Year (Ref),Model''))"
    by (simp add: downloadCSV_def csvContent_def csvText_def headers_def criteriaNames_def rows_def
        relevantPapers_def paperIdsInResult_def js_def isLeadSurrogate_def isTrailSurrogate_def)
  from table out show ?thesis
    by (intro conjI)
qed

section \<open>The editable cell\<close>

lemma insightOf_updatePoint_same:
  "insightOf (updatePoint doc (criteria point) d point) doc = d"
  by (simp add: updatePoint_def insightOf_def)

text \<open>
  Claim C7. Take the cell of document \<open>doc\<close> under the dimension at index \<open>i\<close> of the
  matrix; its baseline is the stored insight. Typing \<open>d\<close> makes \<open>d\<close> the draft. Losing
  focus calls \<^verbatim>\<open>onSave\<close> with the draft, whatever the baseline is, which is
  \<open>updateCell\<close> for this cell, and afterwards the stored insight of the cell is \<open>d\<close>.
  Escape makes no call of \<^verbatim>\<open>onSave\<close>: the store is as before, so the stored insight
  is still the baseline, and the draft is the baseline again.
\<close>

theorem editableCell_commit_cancel:
  assumes "comparisonResult st = Some cr" and "i < length cr"
  shows "value_cell (runCalls doc (criteria (cr ! i))
            \<lparr>store = st, value_cell = insightOf (cr ! i) doc\<rparr> (onChange d)) = d \<and>
         OnSave d \<in> set (handleBlur d) \<and>
         store (runCalls doc (criteria (cr ! i)) \<lparr>store = st, value_cell = d\<rparr> (handleBlur d))
           = updateCell doc (criteria (cr ! i)) d st \<and>
         (\<exists>cr'. comparisonResult
                  (store (runCalls doc (criteria (cr ! i)) \<lparr>store = st, value_cell = d\<rparr> (handleBlur d)))
                  = Some cr' \<and>
                length cr' = length cr \<and> insightOf (cr' ! i) doc = d) \<and>
         (\<forall>x. OnSave x \<notin> set (handleKeyDown (insightOf (cr ! i) doc) (js ''Escape''))) \<and>
         runCalls doc (criteria (cr ! i)) \<lparr>store = st, value_cell = d\<rparr>
             (handleKeyDown (insightOf (cr ! i) doc) (js ''Escape''))
           = \<lparr>store = st, value_cell = insightOf (cr ! i) doc\<rparr>"
proof (intro conjI)
  show "value_cell (runCalls doc (criteria (cr ! i))
            \<lparr>store = st, value_cell = insightOf (cr ! i) doc\<rparr> (onChange d)) = d"
    by (simp add: runCalls_def onChange_def)
  show "OnSave d \<in> set (handleBlur d)"
    by (simp add: handleBlur_def)
  show commit: "store (runCalls doc (criteria (cr ! i)) \<lparr>store = st, value_cell = d\<rparr> (handleBlur d))
           = updateCell doc (criteria (cr ! i)) d st"
    by (simp add: runCalls_def handleBlur_def)
  show "\<exists>cr'. comparisonResult
                  (store (runCalls doc (criteria (cr ! i)) \<lparr>store = st, value_cell = d\<rparr> (handleBlur d)))
                  = Some cr' \<and>
                length cr' = length cr \<and> insightOf (cr' ! i) doc = d"
    using assms by (simp add: commit updateCell_def insightOf_updatePoint_same)
  show "\<forall>x. OnSave x \<notin> set (handleKeyDown (insightOf (cr ! i) doc) (js ''Escape''))"
    by (simp add: handleKeyDown_def)
  show "runCalls doc (criteria (cr ! i)) \<lparr>store = st, value_cell = d\<rparr>
             (handleKeyDown (insightOf (cr ! i) doc) (js ''Escape''))
           = \<lparr>store = st, value_cell = insightOf (cr ! i) doc\<rparr>"
    by (simp add: runCalls_def handleKeyDown_def)
qed

theorem editableCell_commit_cancel_witness:
  "insightOf \<lparr>criteria = js ''Model'', paperInsights = [js ''d1'' \<mapsto> js ''abc'']\<rparr> (js ''d1'') = js ''abc'' \<and>
   comparisonResult (store (runCalls (js ''d1'') (js ''Model'')
       \<lparr>store = \<lparr>comparisonResult = Some [\<lparr>criteria = js ''Model'', paperInsights = [js ''d1'' \<mapsto> js ''abc'']\<rparr>],
                  selectedIds = {}\<rparr>,
        value_cell = js ''abcd''\<rparr>
       (handleBlur (js ''abcd''))))
     = Some [\<lparr>criteria = js ''Model'', paperInsights = [js ''d1'' \<mapsto> js ''abcd'']\<rparr>] \<and>
   runCalls (js ''d1'') (js ''Model'')
       \<lparr>store = \<lparr>comparisonResult = Some [\<lparr>criteria = js ''Model'', paperInsights = [js ''d1'' \<mapsto> js ''abc'']\<rparr>],
                  selectedIds = {}\<rparr>,
        value_cell = js ''abcd''\<rparr>
       (handleKeyDown (js ''abc'') (js ''Escape''))
     = \<lparr>store = \<lparr>comparisonResult = Some [\<lparr>criteria = js ''Model'', paperInsights = [js ''d1'' \<mapsto> js ''abc'']\<rparr>],
                  selectedIds = {}\<rparr>,
        value_cell = js ''abc''\<rparr>"
proof -
  let ?cr = "[\<lparr>criteria = js ''Model'', paperInsights = [js ''d1'' \<mapsto> js ''abc'']\<rparr>]"
  let ?st = "\<lparr>comparisonResult = Some ?cr, selectedIds = {}\<rparr>"
  have h1: "comparisonResult ?st = Some ?cr" and h2: "0 < length ?cr"
    by simp_all
  have b: "insightOf \<lparr>criteria = js ''Model'', paperInsights = [js ''d1'' \<mapsto> js ''abc'']\<rparr> (js ''d1'') = js ''abc''"
    by (simp add: insightOf_def)
  note T = editableCell_commit_cancel [OF h1 h2, of "js ''d1''" "js ''abcd''"]
  from T have "store (runCalls (js ''d1'') (criteria (?cr ! 0)) \<lparr>store = ?st, value_cell = js ''abcd''\<rparr>
        (handleBlur (js ''abcd''))) = updateCell (js ''d1'') (criteria (?cr ! 0)) (js ''abcd'') ?st"
    by (elim conjE)
  then have commit: "comparisonResult (store (runCalls (js ''d1'') (js ''Model'')
        \<lparr>store = ?st, value_cell = js ''abcd''\<rparr> (handleBlur (js ''abcd''))))
      = Some [\<lparr>criteria = js ''Model'', paperInsights = [js ''d1'' \<mapsto> js ''abcd'']\<rparr>]"
    by (simp add: updateCell_def updatePoint_def)
  from T have "runCalls (js ''d1'') (criteria (?cr ! 0)) \<lparr>store = ?st, value_cell = js ''abcd''\<rparr>
        (handleKeyDown (insightOf (?cr ! 0) (js ''d1'')) (js ''Escape''))
      = \<lparr>store = ?st, value_cell = insightOf (?cr ! 0) (js ''d1'')\<rparr>"
    by (elim conjE)
  then have cancel: "runCalls (js ''d1'') (js ''Model'') \<lparr>store = ?st, value_cell = js ''abcd''\<rparr>
        (handleKeyDown (js ''abc'') (js ''Escape'')) = \<lparr>store = ?st, value_cell = js ''abc''\<rparr>"
    by (simp add: b)
  from b commit cancel show ?thesis
    by simp
qed

text \<open>
  The specification's example of rendering: one bullet with the emphasized span
  \<open>p<0.001\<close> between two empty plain spans, then one plain paragraph.
\<close>

lemma renderContent_example:
  "renderContent (js ''- **p<0.001**\<newline>plain line'') =
     Lines [BulletLine [Span [], Strong (js ''p<0.001''), Span []],
            PlainLine [Span (js ''plain line'')]]"
  by (simp add: renderContent_def js_def renderLine_def trim_def isWhiteSpace_def isLineTerminator_def
      startsWith_def endsWith_def matchBold_def renderPart_def slice_def)

text \<open>
  Claim C8. The claim has every unmatched pair of stars rendered as literal characters.
  A part of a line that the pattern did not match is still rendered as emphasized when
  it starts and ends with two stars, and the part \<open>**\<close> does both with the same two
  characters: it is rendered as an emphasized span with no text, and the stars are not
  shown. This happens for the text \<open>**\<close>, and for the two stars left over after a
  matched pair in \<open>**a****\<close>.
\<close>

theorem renderContent_lone_stars:
  "renderContent (js ''**'') = Lines [PlainLine [Strong []]] \<and>
   renderContent (js ''**a****'') = Lines [PlainLine [Span [], Strong (js ''a''), Strong []]]"
  by (simp add: renderContent_def js_def renderLine_def trim_def isWhiteSpace_def isLineTerminator_def
      startsWith_def endsWith_def matchBold_def renderPart_def slice_def)

end
